theory Spec2Isabelle
  imports Complex_Main
begin

section \<open>Values handed to and returned by the toolkit\<close>

type_synonym point = "int \<times> int"

datatype qrect = QRect int int int int

datatype color = QColor int int int int | Qt_red

datatype cursor = BlankCursor

datatype button = LeftButton | RightButton | MiddleButton

text \<open>What \<open>grabWindow(0, x, y, w, h)\<close> hands back: the pixels of the requested region.\<close>

datatype pixmap = Grabbed int int int int

text \<open>Python's integers are unbounded; where the toolkit takes a C \<open>int\<close> the binding
  converts the argument and raises \<open>OverflowError\<close> when it does not fit 32 bits.\<close>

datatype py_error = OverflowError

definition c_int :: "int \<Rightarrow> bool" where
  "c_int v = (- 2147483648 \<le> v \<and> v \<le> 2147483647)"

subsection \<open>Python's \<open>str\<close> of an integer, \<open>int\<close> of a float, \<open>os.path.join\<close>\<close>

definition digit_char :: "nat \<Rightarrow> char" where
  "digit_char d = char_of (48 + d)"

function str_nat :: "nat \<Rightarrow> string" where
  "str_nat n = (if n < 10 then [digit_char n] else str_nat (n div 10) @ [digit_char (n mod 10)])"
  by pat_completeness auto
termination
  by (relation "measure id") auto

definition str_int :: "int \<Rightarrow> string" where
  "str_int i = (if i < 0 then CHR ''-'' # str_nat (nat (- i)) else str_nat (nat i))"

text \<open>\<open>int(t)\<close> on a float truncates towards zero; the conversion is exact, so the float
  is read as the real number it denotes.\<close>

definition int_of_float :: "real \<Rightarrow> int" where
  "int_of_float t = (if 0 \<le> t then \<lfloor>t\<rfloor> else \<lceil>t\<rceil>)"

text \<open>\<open>os.path.join(a, b)\<close> with the separator \<open>/\<close>: an absolute second part replaces
  the first, otherwise one separator is put between them unless the first already ends in one.\<close>

definition path_join :: "string \<Rightarrow> string \<Rightarrow> string" where
  "path_join a b =
     (if b \<noteq> [] \<and> hd b = CHR ''/'' then b
      else if a = [] \<or> last a = CHR ''/'' then a @ b
      else a @ ''/'' @ b)"

section \<open>State of the application\<close>

text \<open>Every call the program makes on the toolkit, on the standard output or on its own
  callback, in the order it is made. A call the binding refuses is not made; the exception
  then leaves the handler, which is recorded as \<open>Raise\<close>, the last entry the handler
  adds. What the toolkit does with an exception that leaves a handler is not modelled.\<close>

datatype call =
    Print string
  | SetTranslucentBackground
  | SetMouseTracking bool
  | ShowFullScreen
  | SetOverrideCursor cursor
  | SetCursor cursor
  | GrabMouse
  | GrabKeyboard
  | NewShortcut string
  | TimerStart int
  | TimerStop
  | FillRect qrect color
  | SetPen color int
  | DrawRect qrect
  | GrabWindow int int int int int
  | Save pixmap string bool
  | Accept
  | ReleaseMouse
  | ReleaseKeyboard
  | RestoreOverrideCursor
  | OnClosed
  | SuperCloseEvent
  | SetStatus string
  | HideWindow
  | ShowWindow
  | Raise py_error

text \<open>The main window's attributes (other than its overlay handle) together with the
  process-wide toolkit state and the files on disk. The configured sizes are the integers
  read from the configuration file.\<close>

record gui =
  mw_save_folder :: string
  mw_width :: int
  mw_height :: int
  mw_visible :: bool
  mw_status :: string
  override_cursors :: "cursor list"
  mouse_grab :: bool
  keyboard_grab :: bool
  files :: "string \<rightharpoonup> pixmap"
  trace :: "call list"

text \<open>An \<open>Overlay\<close> object: the attributes set by \<open>__init__\<close>, the geometry the full-screen
  window was given, whether it is shown and whether its repaint timer runs.\<close>

record overlay =
  ov_w :: int
  ov_h :: int
  ov_save_folder :: string
  ov_on_closed :: "gui \<Rightarrow> gui"
  ov_geometry :: qrect
  ov_visible :: bool
  ov_timer :: bool

record app =
  app_overlay :: "overlay option"
  app_gui :: gui

subsection \<open>Toolkit primitives\<close>

definition emit :: "call \<Rightarrow> gui \<Rightarrow> gui" where
  "emit c g = g\<lparr>trace := trace g @ [c]\<rparr>"

definition sequence :: "('s \<Rightarrow> 's) list \<Rightarrow> 's \<Rightarrow> 's" where
  "sequence fs s = fold (\<lambda>f. f) fs s"

definition print :: "string \<Rightarrow> gui \<Rightarrow> gui" where
  "print line = emit (Print line)"

definition setOverrideCursor :: "cursor \<Rightarrow> gui \<Rightarrow> gui" where
  "setOverrideCursor c g =
     emit (SetOverrideCursor c) (g\<lparr>override_cursors := c # override_cursors g\<rparr>)"

text \<open>Restoring pops the last override cursor; on an empty stack it does nothing.\<close>

definition restoreOverrideCursor :: "gui \<Rightarrow> gui" where
  "restoreOverrideCursor g =
     emit RestoreOverrideCursor
       (g\<lparr>override_cursors := (case override_cursors g of [] \<Rightarrow> [] | _ # cs \<Rightarrow> cs)\<rparr>)"

definition grabMouse :: "gui \<Rightarrow> gui" where
  "grabMouse g = emit GrabMouse (g\<lparr>mouse_grab := True\<rparr>)"

definition grabKeyboard :: "gui \<Rightarrow> gui" where
  "grabKeyboard g = emit GrabKeyboard (g\<lparr>keyboard_grab := True\<rparr>)"

definition releaseMouse :: "gui \<Rightarrow> gui" where
  "releaseMouse g = emit ReleaseMouse (g\<lparr>mouse_grab := False\<rparr>)"

definition releaseKeyboard :: "gui \<Rightarrow> gui" where
  "releaseKeyboard g = emit ReleaseKeyboard (g\<lparr>keyboard_grab := False\<rparr>)"

text \<open>\<open>img.save(path)\<close> returns whether the file was written; whether it can be is decided
  outside the program and is an input \<open>ok\<close> here.\<close>

definition save :: "pixmap \<Rightarrow> string \<Rightarrow> bool \<Rightarrow> gui \<Rightarrow> bool \<times> gui" where
  "save img path ok g =
     (ok, emit (Save img path ok) (if ok then g\<lparr>files := (files g)(path \<mapsto> img)\<rparr> else g))"

text \<open>\<open>grabWindow(wid, x, y, w, h)\<close> takes the offset and the size as C \<open>int\<close>s.\<close>

definition grabWindow ::
    "int \<Rightarrow> int \<Rightarrow> int \<Rightarrow> int \<Rightarrow> int \<Rightarrow> gui \<Rightarrow> py_error + pixmap \<times> gui" where
  "grabWindow wid x y w h g =
     (if c_int x \<and> c_int y \<and> c_int w \<and> c_int h
      then Inr (Grabbed x y w h, emit (GrabWindow wid x y w h) g)
      else Inl OverflowError)"

text \<open>The constructor call \<open>QRect(x, y, w, h)\<close>, which takes four C \<open>int\<close>s.\<close>

definition QRect_init :: "int \<Rightarrow> int \<Rightarrow> int \<Rightarrow> int \<Rightarrow> py_error + qrect" where
  "QRect_init x y w h =
     (if c_int x \<and> c_int y \<and> c_int w \<and> c_int h then Inr (QRect x y w h)
      else Inl OverflowError)"

text \<open>A top-level window maps a global position to its own coordinates by subtracting the
  global position of its top-left corner; \<open>rect()\<close> is its area in its own coordinates.\<close>

fun mapFromGlobal :: "overlay \<Rightarrow> point \<Rightarrow> point" where
  "mapFromGlobal ov (gx, gy) = (case ov_geometry ov of QRect ox oy _ _ \<Rightarrow> (gx - ox, gy - oy))"

fun mapToGlobal :: "overlay \<Rightarrow> point \<Rightarrow> point" where
  "mapToGlobal ov (lx, ly) = (case ov_geometry ov of QRect ox oy _ _ \<Rightarrow> (lx + ox, ly + oy))"

definition rect :: "overlay \<Rightarrow> qrect" where
  "rect ov = (case ov_geometry ov of QRect _ _ gw gh \<Rightarrow> QRect 0 0 gw gh)"

section \<open>The overlay\<close>

text \<open>\<open>Overlay.__init__\<close> (lines 32 to 70); \<open>screen\<close> is the geometry \<open>showFullScreen\<close>
  gives the window.\<close>

definition Overlay_init ::
    "int \<Rightarrow> int \<Rightarrow> string \<Rightarrow> (gui \<Rightarrow> gui) \<Rightarrow> qrect \<Rightarrow> gui \<Rightarrow> overlay \<times> gui" where
  "Overlay_init width height save_folder on_closed screen g =
     (\<lparr>ov_w = width, ov_h = height, ov_save_folder = save_folder, ov_on_closed = on_closed,
       ov_geometry = screen, ov_visible = True, ov_timer = True\<rparr>,
      sequence
       [print (''[DEBUG] Overlay init: size=('' @ str_int width @ [CHR 0xD7] @ str_int height
                 @ ''), folder='' @ [CHR 0x27] @ save_folder @ [CHR 0x27]),
        emit SetTranslucentBackground,
        emit (SetMouseTracking True),
        emit ShowFullScreen,
        print ''[DEBUG] Overlay shown full-screen'',
        setOverrideCursor BlankCursor,
        emit (SetCursor BlankCursor),
        print ''[DEBUG] System cursor hidden'',
        grabMouse,
        grabKeyboard,
        print ''[DEBUG] Mouse and keyboard grabbed by overlay'',
        emit (NewShortcut ''Ctrl+G''),
        emit (NewShortcut ''Escape''),
        print ''[DEBUG] Shortcuts for Ctrl+G and Esc set'',
        emit (TimerStart 0),
        print ''[DEBUG] Repaint timer started''] g)"

text \<open>\<open>Overlay.paintEvent\<close> (lines 72 to 82); \<open>gp\<close> is what \<open>QCursor.pos()\<close> returns.
  Python's \<open>//\<close> on integers is floor division, as \<open>div\<close> on \<open>int\<close> is. The fill and the
  pen are set before the rectangle is built; if building it raises, nothing is stroked.\<close>

definition paint_rect :: "overlay \<Rightarrow> point \<Rightarrow> py_error + qrect" where
  "paint_rect ov gp =
     (let lp = mapFromGlobal ov gp;
          x = fst lp - ov_w ov div 2 + 1;
          y = snd lp - ov_h ov div 2 + 1
      in QRect_init x y (ov_w ov) (ov_h ov))"

definition paintEvent :: "overlay \<Rightarrow> point \<Rightarrow> gui \<Rightarrow> gui" where
  "paintEvent ov gp g =
     (let g1 = emit (FillRect (rect ov) (QColor 0 0 0 1)) g;
          g2 = emit (SetPen Qt_red 3) g1
      in case paint_rect ov gp of
           Inl e \<Rightarrow> emit (Raise e) g2
         | Inr r \<Rightarrow> emit (DrawRect r) g2)"

text \<open>\<open>Overlay.mousePressEvent\<close> (lines 84 to 96); \<open>gp\<close> is what \<open>QCursor.pos()\<close>
  returns, \<open>now\<close> what \<open>time.time()\<close> returns and \<open>ok\<close> whether the file can be written.
  The result of \<open>img.save\<close> is dropped, as in the source, and the handler has no branch
  for any other button. If \<open>grabWindow\<close> raises, the handler ends there, after its first
  debug line. A primary screen is taken to exist, the overlay being shown
  full-screen on it. The origin, the file name and the first debug line are computed inline
  in the source; they are named here so that the properties can speak of them.\<close>

definition capture_origin :: "overlay \<Rightarrow> point \<Rightarrow> point" where
  "capture_origin ov gp = (fst gp - ov_w ov div 2, snd gp - ov_h ov div 2)"

definition capture_filename :: "real \<Rightarrow> string" where
  "capture_filename now = ''screenshot_'' @ str_int (int_of_float now) @ ''.png''"

definition capture_path :: "overlay \<Rightarrow> real \<Rightarrow> string" where
  "capture_path ov now = path_join (ov_save_folder ov) (capture_filename now)"

definition click_message :: "overlay \<Rightarrow> point \<Rightarrow> string" where
  "click_message ov gp =
     ''[DEBUG] Click at global ('' @ str_int (fst gp) @ '','' @ str_int (snd gp)
       @ ''), region=('' @ str_int (fst (capture_origin ov gp)) @ '',''
       @ str_int (snd (capture_origin ov gp)) @ '','' @ str_int (ov_w ov) @ '',''
       @ str_int (ov_h ov) @ '')''"

definition mousePressEvent :: "overlay \<Rightarrow> button \<Rightarrow> point \<Rightarrow> real \<Rightarrow> bool \<Rightarrow> gui \<Rightarrow> gui" where
  "mousePressEvent ov b gp now ok g =
     (if b = LeftButton then
        let x = fst (capture_origin ov gp);
            y = snd (capture_origin ov gp);
            g1 = print (click_message ov gp) g
        in case grabWindow 0 x y (ov_w ov) (ov_h ov) g1 of
             Inl e \<Rightarrow> emit (Raise e) g1
           | Inr (img, g2) \<Rightarrow>
               let filename = capture_filename now;
                   path = capture_path ov now;
                   (_, g3) = save img path ok g2;
                   g4 = print (''[DEBUG] Screenshot saved: '' @ filename) g3
               in emit Accept g4
      else g)"

text \<open>\<open>Overlay.closeEvent\<close> (lines 98 to 106), and the toolkit's \<open>close()\<close>, which
  delivers the close event and hides the window once the inherited handler has accepted
  it.\<close>

definition call_on_closed :: "overlay \<Rightarrow> gui \<Rightarrow> gui" where
  "call_on_closed ov g = ov_on_closed ov (emit OnClosed g)"

definition closeEvent :: "overlay \<Rightarrow> gui \<Rightarrow> overlay \<times> gui" where
  "closeEvent ov g =
     (ov\<lparr>ov_timer := False\<rparr>,
      sequence
       [print ''[DEBUG] Closing overlay'',
        emit TimerStop,
        releaseMouse,
        releaseKeyboard,
        restoreOverrideCursor,
        print ''[DEBUG] Restored cursor, released grabs, timer stopped'',
        call_on_closed ov,
        emit SuperCloseEvent] g)"

definition close :: "overlay \<Rightarrow> gui \<Rightarrow> overlay \<times> gui" where
  "close ov g = (case closeEvent ov g of (ov', g') \<Rightarrow> (ov'\<lparr>ov_visible := False\<rparr>, g'))"

section \<open>The main window\<close>

text \<open>\<open>MainWindow._overlay_closed\<close>, the callback every overlay is created with.\<close>

definition overlay_closed :: "gui \<Rightarrow> gui" where
  "overlay_closed g =
     sequence
       [\<lambda>g. emit ShowWindow (g\<lparr>mw_visible := True\<rparr>),
        \<lambda>g. emit (SetStatus ''Preview off. Ctrl+G to preview again'')
               (g\<lparr>mw_status := ''Preview off. Ctrl+G to preview again''\<rparr>),
        print ''[DEBUG] Returned to main window''] g"

text \<open>The overlay for which \<open>self.overlay and self.overlay.isVisible()\<close> holds, if any.\<close>

definition visible_overlay :: "app \<Rightarrow> overlay option" where
  "visible_overlay a =
     (case app_overlay a of None \<Rightarrow> None | Some ov \<Rightarrow> if ov_visible ov then Some ov else None)"

definition overlay_live :: "app \<Rightarrow> bool" where
  "overlay_live a = (visible_overlay a \<noteq> None)"

text \<open>\<open>MainWindow.toggle_overlay\<close> (lines 204 to 219); \<open>screen\<close> is the geometry a new
  overlay would get. The only test made before an overlay is created is that the folder is
  not the empty string.\<close>

definition toggle_overlay :: "qrect \<Rightarrow> app \<Rightarrow> app" where
  "toggle_overlay screen a =
     (case visible_overlay a of
        Some ov \<Rightarrow>
          (case close ov (print ''[DEBUG] Toggling overlay OFF'' (app_gui a)) of
             (ov', g') \<Rightarrow> \<lparr>app_overlay = Some ov', app_gui = g'\<rparr>)
      | None \<Rightarrow>
          if mw_save_folder (app_gui a) = [] then
            a\<lparr>app_gui :=
                sequence
                  [\<lambda>g. emit (SetStatus ''Please select a folder first!'')
                         (g\<lparr>mw_status := ''Please select a folder first!''\<rparr>),
                   print ''[DEBUG] No folder selected, cannot open overlay''] (app_gui a)\<rparr>
          else
            (case Overlay_init (mw_width (app_gui a)) (mw_height (app_gui a))
                    (mw_save_folder (app_gui a)) overlay_closed screen
                    (sequence
                       [print ''[DEBUG] Toggling overlay ON'',
                        \<lambda>g. emit HideWindow (g\<lparr>mw_visible := False\<rparr>)] (app_gui a)) of
               (ov, g') \<Rightarrow> \<lparr>app_overlay = Some ov, app_gui = g'\<rparr>))"

section \<open>Events\<close>

text \<open>What the event loop can deliver: the two shortcuts and the timer of the overlay and a
  mouse press on it, which reach it only while it is shown (a shortcut of a hidden window
  is inactive, its timer was stopped when it closed), and a toggle of the main window,
  from its own shortcut or from a direct call. Both shortcuts of the overlay are connected
  to \<open>close\<close>; a timer tick is connected to \<open>update\<close>, which has the window repainted.\<close>

datatype key = CtrlG | Escape

datatype event =
    OverlayShortcut key
  | Timeout point
  | MousePress button point real bool
  | Toggle qrect

definition step :: "event \<Rightarrow> app \<Rightarrow> app" where
  "step e a =
     (case e of
        Toggle screen \<Rightarrow> toggle_overlay screen a
      | OverlayShortcut k \<Rightarrow>
          (case visible_overlay a of
             None \<Rightarrow> a
           | Some ov \<Rightarrow> (case close ov (app_gui a) of
                          (ov', g') \<Rightarrow> \<lparr>app_overlay = Some ov', app_gui = g'\<rparr>))
      | Timeout gp \<Rightarrow>
          (case visible_overlay a of
             None \<Rightarrow> a
           | Some ov \<Rightarrow> a\<lparr>app_gui := paintEvent ov gp (app_gui a)\<rparr>)
      | MousePress b gp now ok \<Rightarrow>
          (case visible_overlay a of
             None \<Rightarrow> a
           | Some ov \<Rightarrow> a\<lparr>app_gui := mousePressEvent ov b gp now ok (app_gui a)\<rparr>))"

definition run :: "event list \<Rightarrow> app \<Rightarrow> app" where
  "run es a = fold step es a"

text \<open>The application once \<open>MainWindow.__init__\<close> has run and the window is shown, with the
  folder and sizes the configuration supplied.\<close>

definition startup :: "string \<Rightarrow> int \<Rightarrow> int \<Rightarrow> app" where
  "startup folder width height =
     \<lparr>app_overlay = None,
      app_gui = \<lparr>mw_save_folder = folder, mw_width = width, mw_height = height,
                 mw_visible = True,
                 mw_status = ''Select a folder and set size, then Ctrl+G to preview'',
                 override_cursors = [], mouse_grab = False, keyboard_grab = False,
                 files = Map.empty, trace = []\<rparr>\<rparr>"

section \<open>Observations used by the properties\<close>

text \<open>The calls made between two states of the trace.\<close>

definition new_calls :: "gui \<Rightarrow> gui \<Rightarrow> call list" where
  "new_calls g g' = drop (length (trace g)) (trace g')"

fun is_grab :: "call \<Rightarrow> bool" where
  "is_grab (GrabWindow _ _ _ _ _) = True"
| "is_grab _ = False"


fun is_print :: "call \<Rightarrow> bool" where
  "is_print (Print _) = True"
| "is_print _ = False"

text \<open>The region a left click at \<open>gp\<close> asks for is one the toolkit accepts.\<close>

definition region_fits :: "overlay \<Rightarrow> point \<Rightarrow> bool" where
  "region_fits ov gp =
     (c_int (fst gp - ov_w ov div 2) \<and> c_int (snd gp - ov_h ov div 2) \<and>
      c_int (ov_w ov) \<and> c_int (ov_h ov))"

definition timer_running :: "app \<Rightarrow> bool" where
  "timer_running a = (case app_overlay a of None \<Rightarrow> False | Some ov \<Rightarrow> ov_timer ov)"

text \<open>Reading a decimal numeral back, and the seconds back out of a file name
  \<open>screenshot_<seconds>.png\<close>.\<close>

definition digit_val :: "char \<Rightarrow> nat" where
  "digit_val c = of_char c - 48"

definition nat_of_digits :: "string \<Rightarrow> nat" where
  "nat_of_digits s = foldl (\<lambda>a c. 10 * a + digit_val c) 0 s"

definition int_of_str :: "string \<Rightarrow> int" where
  "int_of_str s =
     (case s of [] \<Rightarrow> 0
      | c # cs \<Rightarrow> if c = CHR ''-'' then - int (nat_of_digits cs) else int (nat_of_digits s))"

definition timestamp_of_filename :: "string \<Rightarrow> int" where
  "timestamp_of_filename f = int_of_str (take (length f - 15) (drop 11 f))"

text \<open>What holds of the toolkit state between events: with no overlay shown nothing is
  grabbed or overridden and the main window is up; with one shown, it holds both grabs and
  the one override cursor, its timer runs and the main window is hidden.\<close>

definition idle :: "gui \<Rightarrow> bool" where
  "idle g = (\<not> mouse_grab g \<and> \<not> keyboard_grab g \<and> override_cursors g = [] \<and> mw_visible g)"

definition session_ok :: "app \<Rightarrow> bool" where
  "session_ok a =
     (case app_overlay a of
        None \<Rightarrow> idle (app_gui a)
      | Some ov \<Rightarrow>
          ov_on_closed ov = overlay_closed \<and>
          (if ov_visible ov
           then ov_timer ov \<and> mouse_grab (app_gui a) \<and> keyboard_grab (app_gui a) \<and>
                override_cursors (app_gui a) = [BlankCursor] \<and> \<not> mw_visible (app_gui a)
           else \<not> ov_timer ov \<and> idle (app_gui a)))"

subsection \<open>A session used in the examples\<close>

definition example_screen :: qrect where
  "example_screen = QRect 0 0 1920 1080"

definition example_overlay :: overlay where
  "example_overlay =
     \<lparr>ov_w = 800, ov_h = 600, ov_save_folder = ''/shots'', ov_on_closed = overlay_closed,
      ov_geometry = example_screen, ov_visible = True, ov_timer = True\<rparr>"

definition example_app :: app where
  "example_app = step (Toggle example_screen) (startup ''/shots'' 800 600)"

text \<open>The same session with the configured width \<open>2^31\<close>.\<close>

definition wide_overlay :: overlay where
  "wide_overlay =
     \<lparr>ov_w = 2147483648, ov_h = 600, ov_save_folder = ''/shots'', ov_on_closed = overlay_closed,
      ov_geometry = example_screen, ov_visible = True, ov_timer = True\<rparr>"

definition wide_app :: app where
  "wide_app = step (Toggle example_screen) (startup ''/shots'' 2147483648 600)"

section \<open>Decimal numerals and file names\<close>

lemma digit_char_table:
  "digit_char 0 = CHR ''0''" "digit_char 1 = CHR ''1''" "digit_char 2 = CHR ''2''"
  "digit_char 3 = CHR ''3''" "digit_char 4 = CHR ''4''" "digit_char 5 = CHR ''5''"
  "digit_char 6 = CHR ''6''" "digit_char 7 = CHR ''7''" "digit_char 8 = CHR ''8''"
  "digit_char 9 = CHR ''9''" "digit_char (Suc 0) = CHR ''1''"
  by code_simp+

lemma str_int_examples:
  "str_int 1700000000 = ''1700000000''" "str_int 1700000001 = ''1700000001''"
  "str_int 1000 = ''1000''" "str_int 500 = ''500''" "str_int 600 = ''600''"
  "str_int 200 = ''200''" "str_int 800 = ''800''" "str_int 0 = ''0''"
  "str_int 2147483648 = ''2147483648''" "str_int (- 1073740824) = ''-1073740824''"
  by (simp_all add: str_int_def digit_char_table)

declare str_nat.simps [simp del]

lemma of_char_digit_char: "d < 10 \<Longrightarrow> of_char (digit_char d) = 48 + d"
  by (simp add: digit_char_def)

lemma digit_val_digit_char: "d < 10 \<Longrightarrow> digit_val (digit_char d) = d"
  by (simp add: digit_val_def of_char_digit_char)

lemma digit_char_not_minus: "d < 10 \<Longrightarrow> digit_char d \<noteq> CHR ''-''"
proof
  assume d: "d < 10" and eq: "digit_char d = CHR ''-''"
  have "(of_char (digit_char d) :: nat) = of_char (CHR ''-'')" using eq by simp
  then show False using d by (simp add: of_char_digit_char)
qed

lemma nat_of_digits_snoc: "nat_of_digits (s @ [c]) = 10 * nat_of_digits s + digit_val c"
  by (simp add: nat_of_digits_def)

lemma nat_of_digits_str_nat: "nat_of_digits (str_nat n) = n"
proof (induction n rule: str_nat.induct)
  case (1 n)
  show ?case
  proof (cases "n < 10")
    case True
    then show ?thesis
      by (subst str_nat.simps) (simp add: nat_of_digits_def digit_val_digit_char)
  next
    case False
    with 1 have "nat_of_digits (str_nat (n div 10)) = n div 10" by simp
    with False show ?thesis
      by (subst str_nat.simps) (simp add: nat_of_digits_snoc digit_val_digit_char)
  qed
qed

lemma str_nat_head: "\<exists>d cs. d < 10 \<and> str_nat n = digit_char d # cs"
proof (induction n rule: str_nat.induct)
  case (1 n)
  show ?case
  proof (cases "n < 10")
    case True
    then show ?thesis by (subst str_nat.simps) auto
  next
    case False
    with 1 obtain d cs where "d < 10" "str_nat (n div 10) = digit_char d # cs" by blast
    with False show ?thesis by (subst str_nat.simps) auto
  qed
qed

lemma int_of_str_str_int: "int_of_str (str_int i) = i"
proof (cases "i < 0")
  case True
  then show ?thesis by (simp add: int_of_str_def str_int_def nat_of_digits_str_nat)
next
  case False
  obtain d cs where d: "d < 10" and s: "str_nat (nat i) = digit_char d # cs"
    using str_nat_head by blast
  have "int_of_str (str_nat (nat i)) = int (nat_of_digits (str_nat (nat i)))"
    using d by (simp add: int_of_str_def s digit_char_not_minus)
  with False show ?thesis by (simp add: str_int_def nat_of_digits_str_nat)
qed

lemma timestamp_of_capture_filename:
  "timestamp_of_filename (capture_filename now) = int_of_float now"
  by (simp add: timestamp_of_filename_def capture_filename_def int_of_str_str_int)

lemma capture_filename_inj:
  "capture_filename s = capture_filename t \<Longrightarrow> int_of_float s = int_of_float t"
  using timestamp_of_capture_filename by metis

lemma path_join_relative:
  "b \<noteq> [] \<Longrightarrow> hd b \<noteq> CHR ''/'' \<Longrightarrow>
     path_join a b = a @ (if a = [] \<or> last a = CHR ''/'' then [] else ''/'') @ b"
  by (simp add: path_join_def)

lemma capture_path_eq:
  "capture_path ov now =
     ov_save_folder ov
       @ (if ov_save_folder ov = [] \<or> last (ov_save_folder ov) = CHR ''/'' then [] else ''/'')
       @ capture_filename now"
  unfolding capture_path_def by (rule path_join_relative) (simp_all add: capture_filename_def)

lemma capture_path_inj:
  "capture_path ov s = capture_path ov t \<Longrightarrow> int_of_float s = int_of_float t"
  by (rule capture_filename_inj) (simp add: capture_path_eq)

section \<open>What each handler does to the state\<close>

lemmas prim_defs = emit_def print_def sequence_def setOverrideCursor_def
  restoreOverrideCursor_def grabMouse_def grabKeyboard_def releaseMouse_def
  releaseKeyboard_def save_def grabWindow_def

lemma new_calls_append: "trace g' = trace g @ cs \<Longrightarrow> new_calls g g' = cs"
  by (simp add: new_calls_def)

lemma mousePressEvent_left:
  "region_fits ov gp \<Longrightarrow>
   mousePressEvent ov LeftButton gp now ok g =
     g\<lparr>files := (if ok then (files g)(capture_path ov now \<mapsto>
                     Grabbed (fst gp - ov_w ov div 2) (snd gp - ov_h ov div 2) (ov_w ov) (ov_h ov))
                  else files g),
       trace := trace g @
         [Print (click_message ov gp),
          GrabWindow 0 (fst gp - ov_w ov div 2) (snd gp - ov_h ov div 2) (ov_w ov) (ov_h ov),
          Save (Grabbed (fst gp - ov_w ov div 2) (snd gp - ov_h ov div 2) (ov_w ov) (ov_h ov))
               (capture_path ov now) ok,
          Print (''[DEBUG] Screenshot saved: '' @ capture_filename now),
          Accept]\<rparr>"
  by (simp add: mousePressEvent_def capture_origin_def region_fits_def Let_def prim_defs)

lemma mousePressEvent_overflow:
  "\<not> region_fits ov gp \<Longrightarrow>
   mousePressEvent ov LeftButton gp now ok g =
     g\<lparr>trace := trace g @ [Print (click_message ov gp), Raise OverflowError]\<rparr>"
  by (auto simp add: mousePressEvent_def capture_origin_def region_fits_def Let_def prim_defs)

lemma mousePressEvent_other: "b \<noteq> LeftButton \<Longrightarrow> mousePressEvent ov b gp now ok g = g"
  by (simp add: mousePressEvent_def)

lemma paintEvent_eq:
  "paintEvent ov gp g =
     g\<lparr>trace := trace g @
        [FillRect (rect ov) (QColor 0 0 0 1), SetPen Qt_red 3,
         (case paint_rect ov gp of Inl e \<Rightarrow> Raise e | Inr r \<Rightarrow> DrawRect r)]\<rparr>"
  by (simp add: paintEvent_def Let_def prim_defs split: sum.split)

lemma paint_rect_fits:
  "mapFromGlobal ov gp = (lx, ly) \<Longrightarrow>
   c_int (lx - ov_w ov div 2 + 1) \<Longrightarrow> c_int (ly - ov_h ov div 2 + 1) \<Longrightarrow>
   c_int (ov_w ov) \<Longrightarrow> c_int (ov_h ov) \<Longrightarrow>
   paint_rect ov gp = Inr (QRect (lx - ov_w ov div 2 + 1) (ly - ov_h ov div 2 + 1) (ov_w ov) (ov_h ov))"
  by (simp add: paint_rect_def QRect_init_def)

lemma paint_rect_Inr:
  "paint_rect ov gp = Inr r \<Longrightarrow>
   r = QRect (fst (mapFromGlobal ov gp) - ov_w ov div 2 + 1)
             (snd (mapFromGlobal ov gp) - ov_h ov div 2 + 1) (ov_w ov) (ov_h ov)"
  by (simp add: paint_rect_def QRect_init_def Let_def split: if_splits)

lemma overlay_closed_eq:
  "overlay_closed g =
     g\<lparr>mw_visible := True, mw_status := ''Preview off. Ctrl+G to preview again'',
       trace := trace g @ [ShowWindow, SetStatus ''Preview off. Ctrl+G to preview again'',
                           Print ''[DEBUG] Returned to main window'']\<rparr>"
  by (simp add: overlay_closed_def prim_defs)

lemma close_eq:
  "ov_on_closed ov = overlay_closed \<Longrightarrow>
   close ov g =
     (ov\<lparr>ov_timer := False, ov_visible := False\<rparr>,
      g\<lparr>mw_visible := True, mw_status := ''Preview off. Ctrl+G to preview again'',
        override_cursors := (case override_cursors g of [] \<Rightarrow> [] | _ # cs \<Rightarrow> cs),
        mouse_grab := False, keyboard_grab := False,
        trace := trace g @
          [Print ''[DEBUG] Closing overlay'', TimerStop, ReleaseMouse, ReleaseKeyboard,
           RestoreOverrideCursor,
           Print ''[DEBUG] Restored cursor, released grabs, timer stopped'',
           OnClosed, ShowWindow, SetStatus ''Preview off. Ctrl+G to preview again'',
           Print ''[DEBUG] Returned to main window'', SuperCloseEvent]\<rparr>)"
  by (simp add: close_def closeEvent_def call_on_closed_def overlay_closed_eq prim_defs)

lemma Overlay_init_state:
  "Overlay_init w h f cb scr g = (ov, g') \<Longrightarrow>
     ov = \<lparr>ov_w = w, ov_h = h, ov_save_folder = f, ov_on_closed = cb, ov_geometry = scr,
           ov_visible = True, ov_timer = True\<rparr> \<and>
     mouse_grab g' \<and> keyboard_grab g' \<and> override_cursors g' = BlankCursor # override_cursors g \<and>
     mw_visible g' = mw_visible g \<and> mw_status g' = mw_status g \<and> files g' = files g \<and>
     mw_save_folder g' = mw_save_folder g \<and> mw_width g' = mw_width g \<and> mw_height g' = mw_height g"
  by (auto simp add: Overlay_init_def prim_defs)

lemma toggle_refused:
  "visible_overlay a = None \<Longrightarrow> mw_save_folder (app_gui a) = [] \<Longrightarrow>
   toggle_overlay screen a =
     a\<lparr>app_gui := (app_gui a)
         \<lparr>mw_status := ''Please select a folder first!'',
          trace := trace (app_gui a) @
            [SetStatus ''Please select a folder first!'',
             Print ''[DEBUG] No folder selected, cannot open overlay'']\<rparr>\<rparr>"
  by (simp add: toggle_overlay_def prim_defs)

lemma toggle_opens:
  assumes "visible_overlay a = None" and "mw_save_folder (app_gui a) \<noteq> []"
  shows "app_overlay (toggle_overlay screen a) =
           Some \<lparr>ov_w = mw_width (app_gui a), ov_h = mw_height (app_gui a),
                 ov_save_folder = mw_save_folder (app_gui a), ov_on_closed = overlay_closed,
                 ov_geometry = screen, ov_visible = True, ov_timer = True\<rparr>"
    and "mouse_grab (app_gui (toggle_overlay screen a))"
    and "keyboard_grab (app_gui (toggle_overlay screen a))"
    and "override_cursors (app_gui (toggle_overlay screen a)) =
           BlankCursor # override_cursors (app_gui a)"
    and "\<not> mw_visible (app_gui (toggle_overlay screen a))"
    and "mw_status (app_gui (toggle_overlay screen a)) = mw_status (app_gui a)"
    and "files (app_gui (toggle_overlay screen a)) = files (app_gui a)"
  using assms by (simp_all add: toggle_overlay_def Overlay_init_def prim_defs)

lemma toggle_closes:
  "visible_overlay a = Some ov \<Longrightarrow> ov_on_closed ov = overlay_closed \<Longrightarrow>
   toggle_overlay screen a =
     \<lparr>app_overlay = Some (ov\<lparr>ov_timer := False, ov_visible := False\<rparr>),
      app_gui = snd (close ov (print ''[DEBUG] Toggling overlay OFF'' (app_gui a)))\<rparr>"
  by (simp add: toggle_overlay_def close_eq)

lemma shortcut_closes:
  "visible_overlay a = Some ov \<Longrightarrow> ov_on_closed ov = overlay_closed \<Longrightarrow>
   step (OverlayShortcut k) a =
     \<lparr>app_overlay = Some (ov\<lparr>ov_timer := False, ov_visible := False\<rparr>),
      app_gui = snd (close ov (app_gui a))\<rparr>"
  by (simp add: step_def close_eq)

lemma visible_overlay_Some:
  "visible_overlay a = Some ov \<longleftrightarrow> app_overlay a = Some ov \<and> ov_visible ov"
  by (auto simp add: visible_overlay_def split: option.splits)

lemma visible_overlay_None:
  "visible_overlay a = None \<longleftrightarrow> (\<forall>ov. app_overlay a = Some ov \<longrightarrow> \<not> ov_visible ov)"
  by (auto simp add: visible_overlay_def split: option.splits)

section \<open>The state between events\<close>

lemma session_ok_startup: "session_ok (startup folder width height)"
  by (simp add: session_ok_def startup_def idle_def)

lemma session_ok_step: "session_ok a \<Longrightarrow> session_ok (step e a)"
proof (cases "visible_overlay a")
  case None
  assume ok: "session_ok a"
  from ok None have idle: "idle (app_gui a)"
    by (auto simp add: session_ok_def visible_overlay_def split: option.splits if_splits)
  show ?thesis
  proof (cases e)
    case (Toggle screen)
    show ?thesis
    proof (cases "mw_save_folder (app_gui a) = []")
      case True
      with None ok Toggle show ?thesis
        by (auto simp add: step_def toggle_refused session_ok_def idle_def split: option.splits)
    next
      case False
      from toggle_opens[OF None False, of screen] idle Toggle show ?thesis
        by (simp add: step_def session_ok_def idle_def)
    qed
  qed (use None ok in \<open>simp_all add: step_def\<close>)
next
  case (Some ov)
  assume ok: "session_ok a"
  from ok Some have cb: "ov_on_closed ov = overlay_closed"
    and live: "ov_timer ov" "mouse_grab (app_gui a)" "keyboard_grab (app_gui a)"
      "override_cursors (app_gui a) = [BlankCursor]" "\<not> mw_visible (app_gui a)"
    by (auto simp add: session_ok_def visible_overlay_Some)
  from Some have ov: "app_overlay a = Some ov" "ov_visible ov"
    by (simp_all add: visible_overlay_Some)
  show ?thesis
  proof (cases e)
    case (OverlayShortcut k)
    with shortcut_closes[OF Some cb] live cb show ?thesis
      by (simp add: session_ok_def idle_def close_eq[OF cb])
  next
    case (Timeout gp)
    with Some ov cb live show ?thesis
      by (simp add: step_def session_ok_def paintEvent_eq)
  next
    case (MousePress b gp now okw)
    with Some ov cb live show ?thesis
      by (cases "b = LeftButton"; cases "region_fits ov gp")
         (simp_all add: step_def session_ok_def mousePressEvent_left mousePressEvent_overflow
            mousePressEvent_other)
  next
    case (Toggle screen)
    with toggle_closes[OF Some cb] live cb show ?thesis
      by (simp add: step_def session_ok_def idle_def close_eq[OF cb] print_def emit_def)
  qed
qed

lemma session_ok_run: "session_ok a \<Longrightarrow> session_ok (run es a)"
  unfolding run_def by (induction es arbitrary: a) (simp_all add: session_ok_step)

lemma example_app_visible: "visible_overlay example_app = Some example_overlay"
  by (simp add: example_app_def example_overlay_def step_def startup_def visible_overlay_def
      toggle_overlay_def Overlay_init_def)

section \<open>The capture rectangle and the drawn rectangle\<close>

lemma example_fits: "region_fits example_overlay (1000, 500)"
  by (simp add: region_fits_def c_int_def example_overlay_def)

lemma wide_app_visible: "visible_overlay wide_app = Some wide_overlay"
  by (simp add: wide_app_def wide_overlay_def step_def startup_def visible_overlay_def
      toggle_overlay_def Overlay_init_def)

lemma wide_not_fits: "\<not> region_fits wide_overlay (1000, 500)"
  by (simp add: region_fits_def c_int_def wide_overlay_def)

text \<open>
  C1, as the claim states it, fails: the configured sizes are never checked against the
  range of a C \<open>int\<close>. With a configured width of \<open>2^31\<close> (and height 600, cursor at
  (1000, 500)) a left click prints its first debug line, \<open>grabWindow\<close> raises
  \<open>OverflowError\<close>, and no region is asked for; in particular not the one the claim names.
\<close>

theorem wide_region_not_captured:
  "new_calls (app_gui wide_app)
      (mousePressEvent wide_overlay LeftButton (1000, 500) 1700000000 True (app_gui wide_app))
     = [Print ''[DEBUG] Click at global (1000,500), region=(-1073740824,200,2147483648,600)'',
        Raise OverflowError] \<and>
   filter is_grab (new_calls (app_gui wide_app)
      (mousePressEvent wide_overlay LeftButton (1000, 500) 1700000000 True (app_gui wide_app)))
     \<noteq> [GrabWindow 0 (1000 - 2147483648 div 2) (500 - 600 div 2) 2147483648 600] \<and>
   ov_w wide_overlay = 2147483648 \<and> ov_h wide_overlay = 600"
proof -
  have m: "click_message wide_overlay (1000, 500)
      = ''[DEBUG] Click at global (1000,500), region=(-1073740824,200,2147483648,600)''"
    by (simp add: click_message_def capture_origin_def str_int_examples wide_overlay_def)
  have w: "ov_w wide_overlay = 2147483648" "ov_h wide_overlay = 600"
    by (simp_all add: wide_overlay_def)
  show ?thesis
    by (simp add: mousePressEvent_overflow[OF wide_not_fits] m w
        new_calls_append[where cs = "[_, _]"])
qed

text \<open>
  C1, amended. A press of the left button with the cursor at global \<open>(cx, cy)\<close>, where
  the size \<open>(w, h)\<close> the overlay was created with is positive and \<open>w\<close>, \<open>h\<close>,
  \<open>cx - w div 2\<close> and \<open>cy - h div 2\<close> are in the range of a C \<open>int\<close>, asks the screen for
  exactly one region: the window id 0, origin \<open>(cx - w div 2, cy - h div 2)\<close> under floor
  division, and size \<open>(w, h)\<close>. For an 800 by 600 region and the cursor at (1000, 500) the
  origin is (600, 200).
\<close>

theorem capture_rectangle:
  assumes "ov_w ov = w" and "ov_h ov = h" and "0 < w" and "0 < h"
    and "c_int (cx - w div 2)" and "c_int (cy - h div 2)" and "c_int w" and "c_int h"
  shows "filter is_grab (new_calls g (mousePressEvent ov LeftButton (cx, cy) now ok g))
           = [GrabWindow 0 (cx - w div 2) (cy - h div 2) w h]
         \<and> capture_origin ov (cx, cy) = (cx - w div 2, cy - h div 2)"
proof -
  have fits: "region_fits ov (cx, cy)"
    using assms by (simp add: region_fits_def)
  show ?thesis
    using assms(1,2)
    by (simp add: mousePressEvent_left[OF fits] new_calls_append[where cs = "[_, _, _, _, _]"]
        capture_origin_def)
qed

theorem capture_rectangle_witness:
  "ov_w example_overlay = 800 \<and> ov_h example_overlay = 600 \<and> (0::int) < 800 \<and> (0::int) < 600 \<and>
   c_int (1000 - 800 div 2) \<and> c_int (500 - 600 div 2) \<and> c_int 800 \<and> c_int 600 \<and>
   filter is_grab (new_calls (app_gui example_app)
      (mousePressEvent example_overlay LeftButton (1000, 500) 1700000000 True (app_gui example_app)))
     = [GrabWindow 0 600 200 800 600] \<and>
   capture_origin example_overlay (1000, 500) = (600, 200)"
proof -
  have w: "ov_w example_overlay = 800" and h: "ov_h example_overlay = 600"
    by (simp_all add: example_overlay_def)
  have c: "c_int (1000 - 800 div 2)" "c_int (500 - 600 div 2)" "c_int 800" "c_int 600"
    by (simp_all add: c_int_def)
  from capture_rectangle[OF w h _ _ c, of "app_gui example_app" 1700000000 True] w h c
  show ?thesis by simp
qed

text \<open>
  C2, as the claim states it, fails for the same reason: with a configured width of
  \<open>2^31\<close> a repaint tick fills the overlay and selects the pen, building the rectangle
  raises \<open>OverflowError\<close>, and no rectangle is stroked.
\<close>

theorem wide_rectangle_not_drawn:
  "new_calls (app_gui wide_app) (app_gui (step (Timeout (1000, 500)) wide_app))
     = [FillRect (QRect 0 0 1920 1080) (QColor 0 0 0 1), SetPen Qt_red 3, Raise OverflowError] \<and>
   mapFromGlobal wide_overlay (1000, 500) = (1000, 500) \<and>
   ov_w wide_overlay = 2147483648 \<and> ov_h wide_overlay = 600"
proof -
  have p: "paint_rect wide_overlay (1000, 500) = Inl OverflowError"
    by (simp add: paint_rect_def QRect_init_def c_int_def wide_overlay_def example_screen_def)
  have r: "rect wide_overlay = QRect 0 0 1920 1080"
    by (simp add: rect_def wide_overlay_def example_screen_def)
  have w: "mapFromGlobal wide_overlay (1000, 500) = (1000, 500)"
    "ov_w wide_overlay = 2147483648" "ov_h wide_overlay = 600"
    by (simp_all add: wide_overlay_def example_screen_def)
  have "new_calls (app_gui wide_app) (app_gui (step (Timeout (1000, 500)) wide_app))
     = [FillRect (QRect 0 0 1920 1080) (QColor 0 0 0 1), SetPen Qt_red 3, Raise OverflowError]"
    using wide_app_visible
    by (simp add: step_def paintEvent_eq p r new_calls_append[where cs = "[_, _, _]"])
  with w show ?thesis by (intro conjI)
qed

text \<open>
  C2, amended. On a repaint tick with the cursor mapped to the overlay's own coordinates
  \<open>(lx, ly)\<close>, where the size \<open>(w, h)\<close> is positive and \<open>w\<close>, \<open>h\<close>, \<open>lx - w div 2 + 1\<close> and
  \<open>ly - h div 2 + 1\<close> are in the range of a C \<open>int\<close>, the overlay fills its area with black
  of opacity 1/255, selects a red pen of width 3 and strokes one rectangle, whose top-left
  corner is \<open>(lx - w div 2 + 1, ly - h div 2 + 1)\<close> under floor division and whose size is
  \<open>(w, h)\<close>.
\<close>

theorem drawn_rectangle:
  assumes "visible_overlay a = Some ov" and "mapFromGlobal ov gp = (lx, ly)"
    and "ov_w ov = w" and "ov_h ov = h" and "0 < w" and "0 < h"
    and "c_int (lx - w div 2 + 1)" and "c_int (ly - h div 2 + 1)" and "c_int w" and "c_int h"
  shows "new_calls (app_gui a) (app_gui (step (Timeout gp) a))
           = [FillRect (rect ov) (QColor 0 0 0 1), SetPen Qt_red 3,
              DrawRect (QRect (lx - w div 2 + 1) (ly - h div 2 + 1) w h)]"
proof -
  have "paint_rect ov gp = Inr (QRect (lx - w div 2 + 1) (ly - h div 2 + 1) w h)"
    using paint_rect_fits[OF assms(2), unfolded assms(3,4), OF assms(7-10)] assms(3,4)
    by simp
  with assms(1) show ?thesis
    by (simp add: step_def paintEvent_eq new_calls_append[where cs = "[_, _, _]"])
qed

theorem drawn_rectangle_witness:
  "visible_overlay example_app = Some example_overlay \<and>
   mapFromGlobal example_overlay (1000, 500) = (1000, 500) \<and>
   ov_w example_overlay = 800 \<and> ov_h example_overlay = 600 \<and> (0::int) < 800 \<and> (0::int) < 600 \<and>
   c_int (1000 - 800 div 2 + 1) \<and> c_int (500 - 600 div 2 + 1) \<and> c_int 800 \<and> c_int 600 \<and>
   new_calls (app_gui example_app) (app_gui (step (Timeout (1000, 500)) example_app))
     = [FillRect (QRect 0 0 1920 1080) (QColor 0 0 0 1), SetPen Qt_red 3,
        DrawRect (QRect 601 201 800 600)]"
proof -
  have m: "mapFromGlobal example_overlay (1000, 500) = (1000, 500)"
    and w: "ov_w example_overlay = 800" and h: "ov_h example_overlay = 600"
    and r: "rect example_overlay = QRect 0 0 1920 1080"
    by (simp_all add: example_overlay_def example_screen_def rect_def)
  have c: "c_int (1000 - 800 div 2 + 1)" "c_int (500 - 600 div 2 + 1)" "c_int 800" "c_int 600"
    by (simp_all add: c_int_def)
  from drawn_rectangle[OF example_app_visible m w h _ _ c] example_app_visible m w h r c
  show ?thesis by simp
qed

text \<open>
  C3. The rectangle a repaint strokes and the region a left click captures, for the same
  cursor position, have the same size, and the stroked rectangle's top-left corner, mapped
  back to global coordinates, is the captured region's origin moved by exactly (+1, +1).
\<close>

theorem drawn_versus_captured:
  assumes "DrawRect (QRect dx dy dw dh) \<in> set (new_calls g (paintEvent ov gp g))"
    and "GrabWindow wid x y w h \<in> set (new_calls g' (mousePressEvent ov LeftButton gp now ok g'))"
  shows "mapToGlobal ov (dx, dy) = (x + 1, y + 1) \<and> (dw, dh) = (w, h)"
proof -
  obtain ox oy gw gh where geo: "ov_geometry ov = QRect ox oy gw gh"
    by (cases "ov_geometry ov")
  obtain cx cy where gp: "gp = (cx, cy)" by (cases gp)
  from assms(1) have "paint_rect ov gp = Inr (QRect dx dy dw dh)"
    by (cases "paint_rect ov gp")
       (simp_all add: paintEvent_eq new_calls_append[where cs = "[_, _, _]"])
  from paint_rect_Inr[OF this]
  have d: "dx = cx - ox - ov_w ov div 2 + 1 \<and> dy = cy - oy - ov_h ov div 2 + 1 \<and>
      dw = ov_w ov \<and> dh = ov_h ov"
    by (simp add: gp geo)
  have fits: "region_fits ov gp"
  proof (rule ccontr)
    assume "\<not> region_fits ov gp"
    from assms(2) show False
      by (simp add: mousePressEvent_overflow[OF \<open>\<not> region_fits ov gp\<close>]
          new_calls_append[where cs = "[_, _]"])
  qed
  from assms(2) have "x = cx - ov_w ov div 2 \<and> y = cy - ov_h ov div 2 \<and>
      w = ov_w ov \<and> h = ov_h ov"
    by (simp add: mousePressEvent_left[OF fits[unfolded gp]] gp
        new_calls_append[where cs = "[_, _, _, _, _]"])
  with d show ?thesis
    by (simp add: geo)
qed

theorem drawn_versus_captured_witness:
  "DrawRect (QRect 601 201 800 600)
     \<in> set (new_calls (app_gui example_app)
              (paintEvent example_overlay (1000, 500) (app_gui example_app))) \<and>
   GrabWindow 0 600 200 800 600
     \<in> set (new_calls (app_gui example_app)
              (mousePressEvent example_overlay LeftButton (1000, 500) 1700000000 True
                 (app_gui example_app))) \<and>
   mapToGlobal example_overlay (601, 201) = (600 + 1, 200 + 1) \<and>
   ((800::int), (600::int)) = (800, 600)"
proof -
  have w: "ov_w example_overlay = 800" "ov_h example_overlay = 600"
    by (simp_all add: example_overlay_def)
  have d: "DrawRect (QRect 601 201 800 600)
     \<in> set (new_calls (app_gui example_app)
              (paintEvent example_overlay (1000, 500) (app_gui example_app)))"
    by (simp add: paintEvent_eq paint_rect_def QRect_init_def c_int_def
        new_calls_append[where cs = "[_, _, _]"] example_overlay_def example_screen_def)
  have c: "GrabWindow 0 600 200 800 600
     \<in> set (new_calls (app_gui example_app)
              (mousePressEvent example_overlay LeftButton (1000, 500) 1700000000 True
                 (app_gui example_app)))"
    by (simp add: mousePressEvent_left[OF example_fits]
        new_calls_append[where cs = "[_, _, _, _, _]"] w)
  from drawn_versus_captured[OF d c] d c show ?thesis by simp
qed

section \<open>Closing the overlay\<close>

lemma example_app_run: "example_app = run [Toggle example_screen] (startup ''/shots'' 800 600)"
  by (simp add: example_app_def run_def)

lemma example_app_live: "overlay_live example_app"
  by (simp add: overlay_live_def example_app_visible)

lemma close_gui:
  assumes "ov_on_closed ov = overlay_closed" and "override_cursors g = [BlankCursor]"
  shows "\<not> mouse_grab (snd (close ov g))" and "\<not> keyboard_grab (snd (close ov g))"
    and "override_cursors (snd (close ov g)) = []" and "mw_visible (snd (close ov g))"
    and "trace (snd (close ov g)) = trace g @
          [Print ''[DEBUG] Closing overlay'', TimerStop, ReleaseMouse, ReleaseKeyboard,
           RestoreOverrideCursor,
           Print ''[DEBUG] Restored cursor, released grabs, timer stopped'',
           OnClosed, ShowWindow, SetStatus ''Preview off. Ctrl+G to preview again'',
           Print ''[DEBUG] Returned to main window'', SuperCloseEvent]"
  using assms by (simp_all add: close_eq)

text \<open>
  C4. In any state the application reaches from its start, if the overlay is shown, then each
  of its two shortcuts (Ctrl+G, Escape) and a toggle from the main window closes it: the
  overlay is no longer shown, its repaint timer is stopped, the mouse grab and the keyboard
  grab are released, no override cursor is left (the pointer is the default one again), and
  the calls made are, in order and leaving the debug output aside, timer stop, release
  mouse, release keyboard, restore override cursor, the \<open>on_closed\<close> callback (once, with
  no arguments), what the callback does to the main window, and the inherited close handler.
\<close>

theorem close_sequence:
  assumes "a = run es (startup folder width height)" and "overlay_live a"
    and "e = OverlayShortcut CtrlG \<or> e = OverlayShortcut Escape \<or> e = Toggle screen"
  shows "\<not> overlay_live (step e a) \<and> \<not> timer_running (step e a) \<and>
         \<not> mouse_grab (app_gui (step e a)) \<and> \<not> keyboard_grab (app_gui (step e a)) \<and>
         override_cursors (app_gui (step e a)) = [] \<and>
         count_list (new_calls (app_gui a) (app_gui (step e a))) OnClosed = 1 \<and>
         filter (\<lambda>c. \<not> is_print c) (new_calls (app_gui a) (app_gui (step e a)))
           = [TimerStop, ReleaseMouse, ReleaseKeyboard, RestoreOverrideCursor, OnClosed,
              ShowWindow, SetStatus ''Preview off. Ctrl+G to preview again'', SuperCloseEvent]"
proof -
  have ok: "session_ok a"
    unfolding assms(1) by (rule session_ok_run) (rule session_ok_startup)
  from assms(2) obtain ov where vis: "visible_overlay a = Some ov"
    by (auto simp add: overlay_live_def)
  from ok vis have cb: "ov_on_closed ov = overlay_closed"
    and cur: "override_cursors (app_gui a) = [BlankCursor]"
    by (auto simp add: session_ok_def visible_overlay_Some)
  let ?closed = "Some (ov\<lparr>ov_timer := False, ov_visible := False\<rparr>)"
  from assms(3) consider k where "e = OverlayShortcut k" | "e = Toggle screen" by blast
  then show ?thesis
  proof cases
    case 1
    have st: "step e a = \<lparr>app_overlay = ?closed, app_gui = snd (close ov (app_gui a))\<rparr>"
      unfolding 1 by (rule shortcut_closes[OF vis cb])
    show ?thesis
      unfolding st using close_gui[OF cb cur]
      by (simp add: overlay_live_def visible_overlay_def timer_running_def
          new_calls_append[where cs = "[_, _, _, _, _, _, _, _, _, _, _]"])
  next
    case 2
    let ?g = "print ''[DEBUG] Toggling overlay OFF'' (app_gui a)"
    have st: "step e a = \<lparr>app_overlay = ?closed, app_gui = snd (close ov ?g)\<rparr>"
      unfolding 2 by (simp add: step_def toggle_closes[OF vis cb])
    have cur': "override_cursors ?g = [BlankCursor]"
      using cur by (simp add: print_def emit_def)
    have tr: "trace ?g = trace (app_gui a) @ [Print ''[DEBUG] Toggling overlay OFF'']"
      by (simp add: print_def emit_def)
    show ?thesis
      unfolding st using close_gui[OF cb cur'] tr
      by (simp add: overlay_live_def visible_overlay_def timer_running_def
          new_calls_append[where cs = "[_, _, _, _, _, _, _, _, _, _, _, _]"])
  qed
qed

theorem close_sequence_witness:
  "example_app = run [Toggle example_screen] (startup ''/shots'' 800 600) \<and>
   overlay_live example_app \<and>
   (OverlayShortcut Escape = OverlayShortcut CtrlG \<or> OverlayShortcut Escape = OverlayShortcut Escape
      \<or> OverlayShortcut Escape = Toggle example_screen) \<and>
   \<not> overlay_live (step (OverlayShortcut Escape) example_app) \<and>
   \<not> timer_running (step (OverlayShortcut Escape) example_app) \<and>
   \<not> mouse_grab (app_gui (step (OverlayShortcut Escape) example_app)) \<and>
   \<not> keyboard_grab (app_gui (step (OverlayShortcut Escape) example_app)) \<and>
   override_cursors (app_gui (step (OverlayShortcut Escape) example_app)) = [] \<and>
   count_list (new_calls (app_gui example_app)
                 (app_gui (step (OverlayShortcut Escape) example_app))) OnClosed = 1"
proof -
  have e: "OverlayShortcut Escape = OverlayShortcut CtrlG \<or> OverlayShortcut Escape = OverlayShortcut Escape
      \<or> OverlayShortcut Escape = Toggle example_screen" by simp
  from close_sequence[OF example_app_run example_app_live e] example_app_run example_app_live
  show ?thesis by simp
qed

section \<open>A capture whose file cannot be written\<close>

lemma example_app_gui:
  "mw_status (app_gui example_app) = ''Select a folder and set size, then Ctrl+G to preview''"
  "files (app_gui example_app) = Map.empty"
  "mouse_grab (app_gui example_app)" "keyboard_grab (app_gui example_app)"
  by (simp_all add: example_app_def step_def startup_def visible_overlay_def
      toggle_overlay_def Overlay_init_def prim_defs)

lemma example_capture_path:
  "capture_path example_overlay 1700000000 = ''/shots/screenshot_1700000000.png''"
  "capture_path example_overlay (17000000003 / 10) = ''/shots/screenshot_1700000000.png''"
  "capture_path example_overlay (17000000007 / 10) = ''/shots/screenshot_1700000000.png''"
  "capture_path example_overlay 1700000001 = ''/shots/screenshot_1700000001.png''"
  by (simp_all add: capture_path_eq capture_filename_def int_of_float_def str_int_examples
      example_overlay_def)

lemma example_click_message:
  "click_message example_overlay (1000, 500)
     = ''[DEBUG] Click at global (1000,500), region=(600,200,800,600)''"
  by (simp add: click_message_def capture_origin_def str_int_examples example_overlay_def)

lemma press_left_step:
  "visible_overlay a = Some ov \<Longrightarrow> region_fits ov gp \<Longrightarrow>
   step (MousePress LeftButton gp now ok) a =
     a\<lparr>app_gui := (app_gui a)
        \<lparr>files := (if ok then (files (app_gui a))(capture_path ov now \<mapsto>
                       Grabbed (fst gp - ov_w ov div 2) (snd gp - ov_h ov div 2) (ov_w ov) (ov_h ov))
                    else files (app_gui a)),
         trace := trace (app_gui a) @
           [Print (click_message ov gp),
            GrabWindow 0 (fst gp - ov_w ov div 2) (snd gp - ov_h ov div 2) (ov_w ov) (ov_h ov),
            Save (Grabbed (fst gp - ov_w ov div 2) (snd gp - ov_h ov div 2) (ov_w ov) (ov_h ov))
                 (capture_path ov now) ok,
            Print (''[DEBUG] Screenshot saved: '' @ capture_filename now),
            Accept]\<rparr>\<rparr>"
  by (simp add: step_def mousePressEvent_left)

text \<open>A left click gets as far as its write exactly when the region it asks for is one
  the toolkit accepts.\<close>

lemma write_attempted_iff:
  "(\<exists>img p. Save img p ok \<in> set (new_calls g (mousePressEvent ov LeftButton gp now ok g)))
     \<longleftrightarrow> region_fits ov gp"
proof (cases "region_fits ov gp")
  case True
  then show ?thesis
    by (simp add: mousePressEvent_left new_calls_append[where cs = "[_, _, _, _, _]"])
next
  case False
  then show ?thesis
    by (simp add: mousePressEvent_overflow new_calls_append[where cs = "[_, _]"])
qed

lemma press_keeps_overlay:
  "visible_overlay (step (MousePress b gp now ok) a) = visible_overlay a"
  by (cases "visible_overlay a") (simp_all add: step_def visible_overlay_def)

text \<open>
  C5, as the claim states it, fails: a left click whose file cannot be written is reported
  nowhere. In the example session the handler returns normally, the status label keeps its
  text, and the only output is the same two debug lines a successful capture prints, the
  second of which says the screenshot was saved.
\<close>

theorem failed_write_unreported:
  "step (MousePress LeftButton (1000, 500) 1700000000 False) example_app =
     example_app\<lparr>app_gui := (app_gui example_app)
        \<lparr>trace := trace (app_gui example_app) @
           [Print ''[DEBUG] Click at global (1000,500), region=(600,200,800,600)'',
            GrabWindow 0 600 200 800 600,
            Save (Grabbed 600 200 800 600) ''/shots/screenshot_1700000000.png'' False,
            Print ''[DEBUG] Screenshot saved: screenshot_1700000000.png'',
            Accept]\<rparr>\<rparr> \<and>
   mw_status (app_gui (step (MousePress LeftButton (1000, 500) 1700000000 False) example_app))
     = ''Select a folder and set size, then Ctrl+G to preview''"
proof -
  have w: "ov_w example_overlay = 800" "ov_h example_overlay = 600"
    by (simp_all add: example_overlay_def)
  have f: "capture_filename 1700000000 = ''screenshot_1700000000.png''"
    by (simp add: capture_filename_def int_of_float_def str_int_examples)
  show ?thesis
    by (simp add: press_left_step[OF example_app_visible example_fits] example_capture_path
        example_click_message example_app_gui w f)
qed

text \<open>
  C5, amended. A left click that reaches its write (the region it asks for being one the
  toolkit accepts) and whose file cannot be written changes nothing but the trace: no
  file appears, the status label and the grabs are as before, and the overlay stays shown.
  The failure is not reported: the handler drops the result of \<open>save\<close> and prints the same
  lines as after a successful write. A later left click that reaches its write, the write
  succeeding, stores the captured region under its path.
\<close>

theorem failed_write_keeps_session:
  assumes "visible_overlay a = Some ov" and "region_fits ov gp" and "region_fits ov gp'"
  shows "step (MousePress LeftButton gp now False) a =
           a\<lparr>app_gui := (app_gui a)
              \<lparr>trace := trace (app_gui a) @
                 [Print (click_message ov gp),
                  GrabWindow 0 (fst gp - ov_w ov div 2) (snd gp - ov_h ov div 2) (ov_w ov) (ov_h ov),
                  Save (Grabbed (fst gp - ov_w ov div 2) (snd gp - ov_h ov div 2) (ov_w ov) (ov_h ov))
                       (capture_path ov now) False,
                  Print (''[DEBUG] Screenshot saved: '' @ capture_filename now),
                  Accept]\<rparr>\<rparr>
         \<and> overlay_live (step (MousePress LeftButton gp now False) a)
         \<and> files (app_gui (step (MousePress LeftButton gp' now' True)
                              (step (MousePress LeftButton gp now False) a)))
              (capture_path ov now')
             = Some (Grabbed (fst gp' - ov_w ov div 2) (snd gp' - ov_h ov div 2) (ov_w ov) (ov_h ov))"
proof -
  let ?a = "step (MousePress LeftButton gp now False) a"
  have vis: "visible_overlay ?a = Some ov"
    using assms by (simp add: press_keeps_overlay)
  have "files (app_gui (step (MousePress LeftButton gp' now' True) ?a)) (capture_path ov now')
          = Some (Grabbed (fst gp' - ov_w ov div 2) (snd gp' - ov_h ov div 2) (ov_w ov) (ov_h ov))"
    by (simp add: press_left_step[OF vis assms(3)])
  moreover have "overlay_live ?a"
    using vis by (simp add: overlay_live_def)
  ultimately show ?thesis
    by (simp add: press_left_step[OF assms(1,2)])
qed

theorem failed_write_keeps_session_witness:
  "visible_overlay example_app = Some example_overlay \<and>
   region_fits example_overlay (1000, 500) \<and>
   overlay_live (step (MousePress LeftButton (1000, 500) 1700000000 False) example_app) \<and>
   files (app_gui (step (MousePress LeftButton (1000, 500) 1700000001 True)
                     (step (MousePress LeftButton (1000, 500) 1700000000 False) example_app)))
      ''/shots/screenshot_1700000001.png''
     = Some (Grabbed 600 200 800 600)"
proof -
  have w: "ov_w example_overlay = 800" "ov_h example_overlay = 600"
    by (simp_all add: example_overlay_def)
  note later = conjunct2[OF failed_write_keeps_session[OF example_app_visible
      example_fits example_fits, of 1700000000 1700000001]]
  from later example_app_visible example_fits show ?thesis
    by (simp add: example_capture_path w)
qed

section \<open>Opening the overlay\<close>

lemma startup_not_live: "visible_overlay (startup folder width height) = None"
  by (simp add: startup_def visible_overlay_def)

text \<open>
  C6, as the claim states it, fails: with the folder \<open>/shots\<close> and a configured width of 0
  the toggle is not refused. An overlay of width 0 is created and shown, it takes both
  grabs, and the status label keeps its text.
\<close>

theorem zero_width_opens:
  "map_option ov_w (visible_overlay (step (Toggle example_screen) (startup ''/shots'' 0 600)))
     = Some 0 \<and>
   overlay_live (step (Toggle example_screen) (startup ''/shots'' 0 600)) \<and>
   mouse_grab (app_gui (step (Toggle example_screen) (startup ''/shots'' 0 600))) \<and>
   keyboard_grab (app_gui (step (Toggle example_screen) (startup ''/shots'' 0 600))) \<and>
   mw_status (app_gui (step (Toggle example_screen) (startup ''/shots'' 0 600)))
     = ''Select a folder and set size, then Ctrl+G to preview''"
proof -
  have f: "mw_save_folder (app_gui (startup ''/shots'' 0 600)) \<noteq> []"
    by (simp add: startup_def)
  from toggle_opens[OF startup_not_live f, of example_screen] show ?thesis
    by (simp add: step_def overlay_live_def visible_overlay_def startup_def)
qed

text \<open>
  C6, amended. The configured width and height are not examined when the overlay is opened:
  whenever no overlay is shown and the folder is not empty, a toggle creates and shows an
  overlay of exactly the configured size, zero included, with its timer running and both
  grabs taken, and leaves the status label as it was.
\<close>

theorem open_ignores_size:
  assumes "\<not> overlay_live a" and "mw_save_folder (app_gui a) \<noteq> []"
  shows "visible_overlay (step (Toggle screen) a) =
           Some \<lparr>ov_w = mw_width (app_gui a), ov_h = mw_height (app_gui a),
                 ov_save_folder = mw_save_folder (app_gui a), ov_on_closed = overlay_closed,
                 ov_geometry = screen, ov_visible = True, ov_timer = True\<rparr>
         \<and> overlay_live (step (Toggle screen) a)
         \<and> mouse_grab (app_gui (step (Toggle screen) a))
         \<and> keyboard_grab (app_gui (step (Toggle screen) a))
         \<and> mw_status (app_gui (step (Toggle screen) a)) = mw_status (app_gui a)"
proof -
  from assms(1) have none: "visible_overlay a = None"
    by (simp add: overlay_live_def)
  from toggle_opens[OF none assms(2), of screen] show ?thesis
    by (simp add: step_def overlay_live_def visible_overlay_def)
qed

theorem open_ignores_size_witness:
  "\<not> overlay_live (startup ''/shots'' 0 600) \<and>
   mw_save_folder (app_gui (startup ''/shots'' 0 600)) \<noteq> [] \<and>
   visible_overlay (step (Toggle example_screen) (startup ''/shots'' 0 600)) =
     Some \<lparr>ov_w = 0, ov_h = 600, ov_save_folder = ''/shots'', ov_on_closed = overlay_closed,
           ov_geometry = example_screen, ov_visible = True, ov_timer = True\<rparr> \<and>
   overlay_live (step (Toggle example_screen) (startup ''/shots'' 0 600))"
proof -
  have n: "\<not> overlay_live (startup ''/shots'' 0 600)"
    by (simp add: overlay_live_def startup_not_live)
  have f: "mw_save_folder (app_gui (startup ''/shots'' 0 600)) \<noteq> []"
    by (simp add: startup_def)
  from open_ignores_size[OF n f, of example_screen] n f show ?thesis
    by (simp add: startup_def)
qed

text \<open>
  C7. When no overlay is shown and the destination folder is empty, a toggle is refused:
  the refusal is reported on the status label (\<open>Please select a folder first!\<close>) and in the
  debug output, and nothing else changes. In particular the overlay handle is what it was,
  so no overlay is shown, no window is created and no grab is taken.
\<close>

theorem empty_folder_refused:
  assumes "\<not> overlay_live a" and "mw_save_folder (app_gui a) = []"
  shows "step (Toggle screen) a =
           a\<lparr>app_gui := (app_gui a)
              \<lparr>mw_status := ''Please select a folder first!'',
               trace := trace (app_gui a) @
                 [SetStatus ''Please select a folder first!'',
                  Print ''[DEBUG] No folder selected, cannot open overlay'']\<rparr>\<rparr>
         \<and> \<not> overlay_live (step (Toggle screen) a)
         \<and> app_overlay (step (Toggle screen) a) = app_overlay a
         \<and> mouse_grab (app_gui (step (Toggle screen) a)) = mouse_grab (app_gui a)
         \<and> keyboard_grab (app_gui (step (Toggle screen) a)) = keyboard_grab (app_gui a)
         \<and> override_cursors (app_gui (step (Toggle screen) a)) = override_cursors (app_gui a)"
proof -
  from assms(1) have none: "visible_overlay a = None"
    by (simp add: overlay_live_def)
  have st: "step (Toggle screen) a = toggle_overlay screen a"
    by (simp add: step_def)
  show ?thesis
    unfolding st toggle_refused[OF none assms(2)]
    using none by (simp add: overlay_live_def visible_overlay_def)
qed

theorem empty_folder_refused_witness:
  "\<not> overlay_live (startup [] 800 600) \<and>
   mw_save_folder (app_gui (startup [] 800 600)) = [] \<and>
   \<not> overlay_live (step (Toggle example_screen) (startup [] 800 600)) \<and>
   app_overlay (step (Toggle example_screen) (startup [] 800 600)) = None \<and>
   \<not> mouse_grab (app_gui (step (Toggle example_screen) (startup [] 800 600))) \<and>
   \<not> keyboard_grab (app_gui (step (Toggle example_screen) (startup [] 800 600))) \<and>
   override_cursors (app_gui (step (Toggle example_screen) (startup [] 800 600))) = []"
proof -
  have n: "\<not> overlay_live (startup [] 800 600)"
    by (simp add: overlay_live_def startup_not_live)
  have f: "mw_save_folder (app_gui (startup [] 800 600)) = []"
    by (simp add: startup_def)
  note rest = conjunct2[OF empty_folder_refused[OF n f, of example_screen]]
  from rest n f show ?thesis
    by (simp add: startup_def)
qed

section \<open>What a capture writes\<close>



section \<open>Successive captures\<close>

lemma run_two: "run [e1, e2] a = step e2 (step e1 a)"
  by (simp add: run_def)

lemma press_left_files:
  "visible_overlay a = Some ov \<Longrightarrow> region_fits ov gp \<Longrightarrow>
   files (app_gui (step (MousePress LeftButton gp now True) a)) =
     (files (app_gui a))(capture_path ov now \<mapsto>
        Grabbed (fst gp - ov_w ov div 2) (snd gp - ov_h ov div 2) (ov_w ov) (ov_h ov))"
  by (simp add: press_left_step)

text \<open>
  C9, as the claim states it, fails: two left clicks at the same position 0.3 s and 0.7 s
  into the same second are given the same path, and after both the folder holds one file,
  not two.
\<close>

theorem same_second_overwrites:
  "capture_path example_overlay (17000000003 / 10) = capture_path example_overlay (17000000007 / 10) \<and>
   dom (files (app_gui (run [MousePress LeftButton (1000, 500) (17000000003 / 10) True,
                             MousePress LeftButton (1000, 500) (17000000007 / 10) True]
                          example_app)))
     = {''/shots/screenshot_1700000000.png''}"
proof -
  let ?a = "step (MousePress LeftButton (1000, 500) (17000000003 / 10) True) example_app"
  have vis: "visible_overlay ?a = Some example_overlay"
    by (simp add: press_keeps_overlay example_app_visible)
  show ?thesis
    by (simp add: run_two press_left_files[OF vis example_fits]
        press_left_files[OF example_app_visible example_fits]
        example_capture_path example_app_gui)
qed

text \<open>
  C9, amended. Two successive left clicks at the same cursor position, with the same
  region size, that reach their writes (the region they ask for being one the toolkit
  accepts) are given different paths exactly when their click times fall in different
  whole seconds; within one second the path is the same. After both (the writes
  succeeding) each path holds a capture of the same region, hence of the same dimensions.
\<close>

theorem captures_in_different_seconds:
  assumes "visible_overlay a = Some ov" and "region_fits ov gp"
  shows "(capture_path ov t1 \<noteq> capture_path ov t2) = (int_of_float t1 \<noteq> int_of_float t2)
         \<and> files (app_gui (run [MousePress LeftButton gp t1 True,
                                 MousePress LeftButton gp t2 True] a)) (capture_path ov t1)
             = Some (Grabbed (fst gp - ov_w ov div 2) (snd gp - ov_h ov div 2) (ov_w ov) (ov_h ov))
         \<and> files (app_gui (run [MousePress LeftButton gp t1 True,
                                 MousePress LeftButton gp t2 True] a)) (capture_path ov t2)
             = Some (Grabbed (fst gp - ov_w ov div 2) (snd gp - ov_h ov div 2) (ov_w ov) (ov_h ov))"
proof -
  let ?a = "step (MousePress LeftButton gp t1 True) a"
  have vis: "visible_overlay ?a = Some ov"
    using assms(1) by (simp add: press_keeps_overlay)
  have same: "int_of_float t1 = int_of_float t2 \<Longrightarrow> capture_path ov t1 = capture_path ov t2"
    by (simp add: capture_path_def capture_filename_def)
  have ne: "(capture_path ov t1 \<noteq> capture_path ov t2) = (int_of_float t1 \<noteq> int_of_float t2)"
    using same capture_path_inj by blast
  show ?thesis
    unfolding ne
    by (simp add: run_two press_left_files[OF vis assms(2)] press_left_files[OF assms(1,2)])
qed

theorem captures_in_different_seconds_witness:
  "visible_overlay example_app = Some example_overlay \<and>
   region_fits example_overlay (1000, 500) \<and>
   int_of_float 1700000000 \<noteq> int_of_float 1700000001 \<and>
   ''/shots/screenshot_1700000000.png'' \<noteq> ''/shots/screenshot_1700000001.png'' \<and>
   files (app_gui (run [MousePress LeftButton (1000, 500) 1700000000 True,
                        MousePress LeftButton (1000, 500) 1700000001 True] example_app))
      ''/shots/screenshot_1700000000.png'' = Some (Grabbed 600 200 800 600) \<and>
   files (app_gui (run [MousePress LeftButton (1000, 500) 1700000000 True,
                        MousePress LeftButton (1000, 500) 1700000001 True] example_app))
      ''/shots/screenshot_1700000001.png'' = Some (Grabbed 600 200 800 600)"
proof -
  have t: "int_of_float 1700000000 \<noteq> int_of_float 1700000001"
    by (simp add: int_of_float_def)
  have w: "ov_w example_overlay = 800" "ov_h example_overlay = 600"
    by (simp_all add: example_overlay_def)
  from captures_in_different_seconds[OF example_app_visible example_fits,
      of 1700000000 1700000001]
    example_app_visible example_fits t
  show ?thesis by (simp add: example_capture_path w)
qed

section \<open>Presses of other buttons\<close>

text \<open>
  C10. A press of any button other than the left one, with the overlay shown, changes
  nothing at all: no call is made (so no capture and no file), the files are as before,
  and the overlay is still shown with both grabs as they were.
\<close>

theorem other_button_ignored:
  assumes "overlay_live a" and "b \<noteq> LeftButton"
  shows "step (MousePress b gp now ok) a = a
         \<and> new_calls (app_gui a) (app_gui (step (MousePress b gp now ok) a)) = []
         \<and> files (app_gui (step (MousePress b gp now ok) a)) = files (app_gui a)
         \<and> overlay_live (step (MousePress b gp now ok) a)
         \<and> mouse_grab (app_gui (step (MousePress b gp now ok) a)) = mouse_grab (app_gui a)
         \<and> keyboard_grab (app_gui (step (MousePress b gp now ok) a)) = keyboard_grab (app_gui a)"
proof -
  from assms(1) obtain ov where vis: "visible_overlay a = Some ov"
    by (auto simp add: overlay_live_def)
  have "step (MousePress b gp now ok) a = a"
    using vis assms(2) by (simp add: step_def mousePressEvent_other)
  with assms(1) show ?thesis
    by (simp add: new_calls_def)
qed

theorem other_button_ignored_witness:
  "overlay_live example_app \<and> RightButton \<noteq> LeftButton \<and>
   step (MousePress RightButton (1000, 500) 1700000000 True) example_app = example_app \<and>
   files (app_gui (step (MousePress RightButton (1000, 500) 1700000000 True) example_app))
     = Map.empty \<and>
   mouse_grab (app_gui (step (MousePress RightButton (1000, 500) 1700000000 True) example_app)) \<and>
   keyboard_grab (app_gui (step (MousePress RightButton (1000, 500) 1700000000 True) example_app))"
proof -
  have b: "RightButton \<noteq> LeftButton" by simp
  from other_button_ignored[OF example_app_live b, of "(1000, 500)" 1700000000 True]
    example_app_live
  show ?thesis by (simp add: example_app_gui)
qed

end
